theory Spec2Isabelle
  imports Complex_Main "HOL-Library.Word"
begin

section \<open>The energy-term framework of terms.h\<close>

text \<open>
  The header \<^verbatim>\<open>src/lib/terms.h\<close> declares the term taxonomy of a docking scoring
  function, the registry \<^verbatim>\<open>term_set<T>\<close>, the weighted container \<^verbatim>\<open>factors\<close> and the
  aggregate \<^verbatim>\<open>terms\<close>. Each struct is a record, each member function a HOL function that
  takes the object and returns what the member returns or the updated object.

  The scalar type \<^verbatim>\<open>fl\<close>, the size type \<^verbatim>\<open>sz\<close>, the vector \<^verbatim>\<open>flv\<close> and the atom type
  tag \<^verbatim>\<open>smt\<close> are declared in headers included by terms.h. A scalar is the real
  number it denotes; sizes are natural numbers; a vector is a list; an atom type tag is
  the ordinal of its enumerator. Evaluation formulas, sums and maxima are written with
  the exact operations on these numbers and say nothing about rounding. The two
  \<^verbatim>\<open>operator+=\<close> of \<^verbatim>\<open>components\<close>, whose algebraic laws depend on rounding, add with the
  machine addition of the next subsection.
\<close>

type_synonym fl = real
type_synonym sz = nat
type_synonym flv = "fl list"
type_synonym smt = nat

subsection \<open>Machine addition of the scalar type\<close>

text \<open>
  \<^verbatim>\<open>fl\<close> is a typedef, made outside terms.h, of a binary floating-point type of C++. The
  sum of two such values is the exact sum rounded to the precision of the type: to the
  nearest representable number, a tie going to the even significand. \<open>fl_round p\<close> is
  this rounding for a significand of p bits (24 for \<^verbatim>\<open>float\<close>, 53 for \<^verbatim>\<open>double\<close>). The
  exponent range is not bounded, so overflow to infinity and subnormal numbers are left
  out.

  \<open>bit_length n\<close> is the number of binary digits of a positive integer.
\<close>

function bit_length :: "int \<Rightarrow> int" where
  "bit_length n = (if 0 < n then bit_length (n div 2) + 1 else 0)"
  by pat_completeness auto
termination
  by (relation "measure nat") auto

text \<open>For positive x, the exponent e with \<open>2^e \<le> x < 2^(e+1)\<close>.\<close>

definition floor_log2 :: "real \<Rightarrow> int" where
  "floor_log2 x =
     (if 1 \<le> x then bit_length \<lfloor>x\<rfloor> - 1
      else (let b = bit_length \<lfloor>1 / x\<rfloor> - 1
            in if x * 2 powi b = 1 then - b else - b - 1))"

text \<open>The nearest integer, a tie going to the even one.\<close>

definition round_half_even :: "real \<Rightarrow> int" where
  "round_half_even y =
     (let f = \<lfloor>y\<rfloor>; d = y - of_int f
      in if d < 1/2 then f else if 1/2 < d then f + 1 else if even f then f else f + 1)"

text \<open>
  Rounding to p significant bits: with q the exponent of the last place of x, the
  significand \<open>|x| / 2^q\<close> is rounded to an integer and scaled back.
\<close>

definition fl_round :: "nat \<Rightarrow> real \<Rightarrow> real" where
  "fl_round p x =
     (if x = 0 then 0
      else (let q = floor_log2 \<bar>x\<bar> - (int p - 1)
            in sgn x * (of_int (round_half_even (\<bar>x\<bar> * 2 powi (- q))) * 2 powi q)))"

text \<open>
  The machine addition \<^verbatim>\<open>a += b\<close> on \<^verbatim>\<open>fl\<close>. The rounding \<open>rnd\<close> of the type is a
  parameter: \<open>fl_round 24\<close> or \<open>fl_round 53\<close> for a machine type, the identity for exact
  arithmetic.
\<close>

definition fl_add :: "(real \<Rightarrow> real) \<Rightarrow> fl \<Rightarrow> fl \<Rightarrow> fl" where
  "fl_add rnd a b = rnd (a + b)"

subsection \<open>Atoms\<close>

text \<open>
  Modelled from the spec: \<^verbatim>\<open>atom_base\<close> is declared outside terms.h. The spec describes
  it as an atom-like value exposing a type tag, a partial charge and a projection usable
  where only the type matters. terms.h reads the members \<^verbatim>\<open>sm\<close> and \<^verbatim>\<open>charge\<close> and calls
  \<^verbatim>\<open>get()\<close>; the projection returns the type tag.
\<close>

record atom_base =
  sm :: smt
  charge :: fl

text \<open>
  Modelled from the spec: \<^verbatim>\<open>get()\<close>, the projection of an atom usable where only the type
  matters, declared outside terms.h: it returns the type tag.
\<close>

definition atom_base_get :: "atom_base \<Rightarrow> smt" where
  "atom_base_get a = sm a"

subsection \<open>The failure signal\<close>

text \<open>
  Modelled from the spec: the macro \<^verbatim>\<open>VINA_CHECK\<close> is defined outside terms.h. The spec
  calls it a fatal-assertion mechanism that raises a failure signal at the call site, and
  says of the one function whose body is a failed check followed by \<^verbatim>\<open>return 0\<close> that it
  returns the sentinel after raising the signal. So a check takes the signal raised so
  far and raises it when its condition is false; the statements after the check are
  evaluated as written. A function with a check returns an outcome: the signal and the
  returned value.
\<close>

record 'a outcome =
  failure_signal :: bool
  returned :: 'a

text \<open>
  Modelled from the spec: \<^verbatim>\<open>VINA_CHECK(P)\<close>, defined outside terms.h: given the signal
  raised so far, it raises the failure signal when P is false.
\<close>

definition VINA_CHECK :: "bool \<Rightarrow> bool \<Rightarrow> bool" where
  "VINA_CHECK P signal = (if P then signal else True)"

text \<open>
  A read past the end of a vector is undefined behaviour in the source; the model makes
  it the error \<open>Out_of_range\<close>. \<open>Precondition_violation\<close> is the failure the spec gives
  \<^verbatim>\<open>factors::eval\<close>.
\<close>

datatype error = Out_of_range | Precondition_violation

subsection \<open>Term taxonomy\<close>

record term_t =
  name :: string

record distance_additive = term_t +
  cutoff :: fl

text \<open>\<^verbatim>\<open>charge_dependent::components\<close> and its two \<^verbatim>\<open>operator+=\<close>.\<close>

record components =
  type_dependent_only :: fl
  a_charge_dependent :: fl
  b_charge_dependent :: fl
  ab_charge_dependent :: fl

definition components_add ::
  "(real \<Rightarrow> real) \<Rightarrow> components \<Rightarrow> components \<Rightarrow> components" where
  "components_add rnd c rhs =
     c\<lparr>type_dependent_only := fl_add rnd (type_dependent_only c) (type_dependent_only rhs),
       a_charge_dependent := fl_add rnd (a_charge_dependent c) (a_charge_dependent rhs),
       b_charge_dependent := fl_add rnd (b_charge_dependent c) (b_charge_dependent rhs),
       ab_charge_dependent := fl_add rnd (ab_charge_dependent c) (ab_charge_dependent rhs)\<rparr>"

definition components_add_val :: "(real \<Rightarrow> real) \<Rightarrow> components \<Rightarrow> fl \<Rightarrow> components" where
  "components_add_val rnd c val =
     c\<lparr>type_dependent_only := fl_add rnd (type_dependent_only c) val\<rparr>"

text \<open>The sum of two \<open>components\<close> values needs no rounding in any of the four slots.\<close>

definition sums_exact :: "(real \<Rightarrow> real) \<Rightarrow> components \<Rightarrow> components \<Rightarrow> bool" where
  "sums_exact rnd x y =
     (rnd (type_dependent_only x + type_dependent_only y)
        = type_dependent_only x + type_dependent_only y
      \<and> rnd (a_charge_dependent x + a_charge_dependent y)
        = a_charge_dependent x + a_charge_dependent y
      \<and> rnd (b_charge_dependent x + b_charge_dependent y)
        = b_charge_dependent x + b_charge_dependent y
      \<and> rnd (ab_charge_dependent x + ab_charge_dependent y)
        = ab_charge_dependent x + ab_charge_dependent y)"

text \<open>
  \<^verbatim>\<open>charge_dependent\<close> extends \<^verbatim>\<open>distance_additive\<close> with the pure virtual
  \<^verbatim>\<open>eval_components\<close>, a field of the record: each concrete term brings its own.
\<close>

record charge_dependent = distance_additive +
  eval_components :: "smt \<Rightarrow> smt \<Rightarrow> fl \<Rightarrow> components"

definition charge_dependent_eval ::
  "charge_dependent \<Rightarrow> atom_base \<Rightarrow> atom_base \<Rightarrow> fl \<Rightarrow> fl" where
  "charge_dependent_eval t a b r =
     (let c = eval_components t (sm a) (sm b) r
      in type_dependent_only c +
         charge a * a_charge_dependent c +
         charge b * b_charge_dependent c +
         charge a * charge b * ab_charge_dependent c)"

text \<open>
  \<^verbatim>\<open>usable\<close> extends \<^verbatim>\<open>distance_additive\<close> with the virtual two-type \<^verbatim>\<open>eval\<close>. The field
  \<open>eval_types\<close> holds the override of a derived class, \<open>None\<close> when the class does not
  override it; \<open>usable_eval_default\<close> is the body the base class gives.
\<close>

record usable = distance_additive +
  eval_types :: "(smt \<Rightarrow> smt \<Rightarrow> fl \<Rightarrow> fl outcome) option"

definition usable_eval_default :: "smt \<Rightarrow> smt \<Rightarrow> fl \<Rightarrow> fl outcome" where
  "usable_eval_default t1 t2 r =
     \<lparr>failure_signal = VINA_CHECK False False, returned = 0\<rparr>"

definition usable_eval_smt :: "usable \<Rightarrow> smt \<Rightarrow> smt \<Rightarrow> fl \<Rightarrow> fl outcome" where
  "usable_eval_smt u t1 t2 r =
     (case eval_types u of
        None \<Rightarrow> usable_eval_default t1 t2 r
      | Some f \<Rightarrow> f t1 t2 r)"

definition usable_eval :: "usable \<Rightarrow> atom_base \<Rightarrow> atom_base \<Rightarrow> fl \<Rightarrow> fl outcome" where
  "usable_eval u a b r = usable_eval_smt u (atom_base_get a) (atom_base_get b) r"

record additive = term_t +
  cutoff :: fl

subsection \<open>The registry \<^verbatim>\<open>term_set<T>\<close>\<close>

text \<open>
  The member \<^verbatim>\<open>fun\<close> is the field \<open>funs\<close>. The registry owns its terms, so the
  pointer vector is the list of the terms themselves. The weight of \<^verbatim>\<open>add\<close> is an
  \<^verbatim>\<open>unsigned\<close>, a 32-bit word.
\<close>

record 'T term_set =
  enabled :: "bool list"
  funs :: "'T list"

definition term_set_empty :: "'T term_set" where
  "term_set_empty = \<lparr>enabled = [], funs = []\<rparr>"

definition term_set_add :: "32 word \<Rightarrow> 'T \<Rightarrow> 'T term_set \<Rightarrow> 'T term_set" where
  "term_set_add e f ts = ts\<lparr>enabled := enabled ts @ [0 < e], funs := funs ts @ [f]\<rparr>"

text \<open>A sequence of \<^verbatim>\<open>add\<close> calls, first call first.\<close>

fun term_set_add_all :: "(32 word \<times> 'T) list \<Rightarrow> 'T term_set \<Rightarrow> 'T term_set" where
  "term_set_add_all [] ts = ts"
| "term_set_add_all ((e, f) # calls) ts = term_set_add_all calls (term_set_add e f ts)"

definition term_set_size :: "'T term_set \<Rightarrow> sz" where
  "term_set_size ts = length (funs ts)"

text \<open>
  \<^verbatim>\<open>VINA_FOR_IN(i, v)\<close> runs its body for i from 0 while i is below the size of v. Each
  loop is a function of the index and of the variables the body updates.
\<close>

function num_enabled_loop :: "bool list \<Rightarrow> sz \<Rightarrow> sz \<Rightarrow> sz" where
  "num_enabled_loop en i tmp =
     (if i < length en
      then num_enabled_loop en (Suc i) (if en ! i then Suc tmp else tmp)
      else tmp)"
  by pat_completeness auto
termination
  by (relation "measure (\<lambda>(en, i, tmp). length en - i)") auto

definition term_set_num_enabled :: "'T term_set \<Rightarrow> sz" where
  "term_set_num_enabled ts = num_enabled_loop (enabled ts) 0 0"

text \<open>
  \<^verbatim>\<open>get_names\<close>: the loop runs over \<^verbatim>\<open>fun\<close> and reads \<^verbatim>\<open>enabled[i]\<close> only when
  \<^verbatim>\<open>enabled_only\<close> is set (the \<^verbatim>\<open>||\<close> does not evaluate its right side otherwise).
\<close>

function get_names_loop ::
  "bool list \<Rightarrow> ('a term_t_scheme) list \<Rightarrow> bool \<Rightarrow> sz \<Rightarrow> string list \<Rightarrow> error + string list"
  where
  "get_names_loop en fs enabled_only i out =
     (if i < length fs
      then (if enabled_only
            then (if i < length en
                  then (if en ! i
                        then get_names_loop en fs enabled_only (Suc i) (out @ [name (fs ! i)])
                        else get_names_loop en fs enabled_only (Suc i) out)
                  else Inl Out_of_range)
            else get_names_loop en fs enabled_only (Suc i) (out @ [name (fs ! i)]))
      else Inr out)"
  by pat_completeness auto
termination
  by (relation "measure (\<lambda>(en, fs, enabled_only, i, out). length fs - i)") auto

definition term_set_get_names ::
  "('a term_t_scheme) term_set \<Rightarrow> bool \<Rightarrow> string list \<Rightarrow> (error + string list) outcome"
  where
  "term_set_get_names ts enabled_only out =
     \<lparr>failure_signal = VINA_CHECK (length (enabled ts) = length (funs ts)) False,
      returned = get_names_loop (enabled ts) (funs ts) enabled_only 0 out\<rparr>"

text \<open>
  \<^verbatim>\<open>filter\<close>: the iterator \<^verbatim>\<open>in\<close> is a position in the vector v it runs over. The
  function returns the position after the loop and the extended \<^verbatim>\<open>out\<close>.
\<close>

function filter_loop ::
  "bool list \<Rightarrow> flv \<Rightarrow> sz \<Rightarrow> sz \<Rightarrow> flv \<Rightarrow> error + (sz \<times> flv)" where
  "filter_loop en v i pos out =
     (if i < length en
      then (if en ! i
            then (if pos < length v
                  then filter_loop en v (Suc i) (Suc pos) (out @ [v ! pos])
                  else Inl Out_of_range)
            else filter_loop en v (Suc i) (Suc pos) out)
      else Inr (pos, out))"
  by pat_completeness auto
termination
  by (relation "measure (\<lambda>(en, v, i, pos, out). length en - i)") auto

definition term_set_filter ::
  "'T term_set \<Rightarrow> flv \<Rightarrow> sz \<Rightarrow> flv \<Rightarrow> (error + (sz \<times> flv)) outcome" where
  "term_set_filter ts v pos out =
     \<lparr>failure_signal = VINA_CHECK (length (enabled ts) = length (funs ts)) False,
      returned = filter_loop (enabled ts) v 0 pos out\<rparr>"

text \<open>
  \<^verbatim>\<open>max_cutoff\<close> reads the member \<^verbatim>\<open>cutoff\<close> of T, which the template finds in
  \<^verbatim>\<open>distance_additive\<close> and in \<^verbatim>\<open>additive\<close>; the function takes the accessor.
\<close>

function max_cutoff_loop :: "('T \<Rightarrow> fl) \<Rightarrow> 'T list \<Rightarrow> sz \<Rightarrow> fl \<Rightarrow> fl" where
  "max_cutoff_loop cutoff_of fs i tmp =
     (if i < length fs
      then max_cutoff_loop cutoff_of fs (Suc i) (max tmp (cutoff_of (fs ! i)))
      else tmp)"
  by pat_completeness auto
termination
  by (relation "measure (\<lambda>(cutoff_of, fs, i, tmp). length fs - i)") auto

definition term_set_max_cutoff :: "('T \<Rightarrow> fl) \<Rightarrow> 'T term_set \<Rightarrow> fl" where
  "term_set_max_cutoff cutoff_of ts = max_cutoff_loop cutoff_of (funs ts) 0 0"

subsection \<open>\<^verbatim>\<open>factors\<close>\<close>

text \<open>The members \<^verbatim>\<open>e\<close> and \<^verbatim>\<open>i\<close> are the fields \<open>factors_e\<close> and \<open>factors_i\<close>.\<close>

record factors =
  factors_e :: flv
  factors_i :: flv

definition factors_size :: "factors \<Rightarrow> sz" where
  "factors_size f = length (factors_e f) + length (factors_i f)"

definition factors_num_weights :: "factors \<Rightarrow> sz" where
  "factors_num_weights f =
     (if length (factors_e f) > length (factors_i f)
      then length (factors_e f) else length (factors_i f))"

text \<open>
  Modelled from the spec: \<^verbatim>\<open>factors::eval\<close> is declared in terms.h and defined in a
  source file that is not part of the sources at hand. The spec: it reduces the two
  groups against one weight vector, indexed positionally; it sums \<open>e[k]*weights[k]\<close> for
  all k and additionally sums \<open>i[k]*weights[k]\<close> only if \<open>include_internal\<close> is set; it
  fails (precondition violation) if \<open>weights\<close> has fewer entries than \<open>num_weights()\<close>.
  The sum is an accumulation loop over the positions of the group.
\<close>

function weighted_sum_loop :: "flv \<Rightarrow> flv \<Rightarrow> sz \<Rightarrow> fl \<Rightarrow> fl" where
  "weighted_sum_loop g weights k tmp =
     (if k < length g
      then weighted_sum_loop g weights (Suc k) (tmp + g ! k * weights ! k)
      else tmp)"
  by pat_completeness auto
termination
  by (relation "measure (\<lambda>(g, weights, k, tmp). length g - k)") auto

text \<open>
  Modelled from the spec: \<^verbatim>\<open>factors::eval\<close>, whose body is not in terms.h: the failure on
  a weight vector shorter than \<open>num_weights()\<close>, then the sum over e and, if
  \<open>include_internal\<close> is set, the sum over i.
\<close>

definition factors_eval :: "factors \<Rightarrow> flv \<Rightarrow> bool \<Rightarrow> error + fl" where
  "factors_eval f weights include_internal =
     (if length weights < factors_num_weights f then Inl Precondition_violation
      else Inr (let tmp = weighted_sum_loop (factors_e f) weights 0 0
                in if include_internal
                   then weighted_sum_loop (factors_i f) weights 0 tmp
                   else tmp))"

subsection \<open>The aggregate \<^verbatim>\<open>terms\<close>\<close>

text \<open>
  Five registries, one per kind. The element types are parameters: the registry of a
  kind holds objects of any class derived from it. The five overloads of \<^verbatim>\<open>add\<close> differ
  in the static type of the pointer; \<open>term_ptr\<close> is a pointer with its static kind, and
  \<open>terms_add\<close> has one equation per overload.
\<close>

record ('da, 'us, 'ad, 'im, 'ci) terms =
  distance_additive_terms :: "'da term_set"
  usable_terms :: "'us term_set"
  additive_terms :: "'ad term_set"
  intermolecular_terms :: "'im term_set"
  conf_independent_terms :: "'ci term_set"

datatype ('da, 'us, 'ad, 'im, 'ci) term_ptr =
    Distance_additive_ptr 'da
  | Usable_ptr 'us
  | Additive_ptr 'ad
  | Intermolecular_ptr 'im
  | Conf_independent_ptr 'ci

fun terms_add ::
  "32 word \<Rightarrow> ('da, 'us, 'ad, 'im, 'ci) term_ptr \<Rightarrow> ('da, 'us, 'ad, 'im, 'ci) terms
     \<Rightarrow> ('da, 'us, 'ad, 'im, 'ci) terms" where
  "terms_add e (Distance_additive_ptr p) t =
     t\<lparr>distance_additive_terms := term_set_add e p (distance_additive_terms t)\<rparr>"
| "terms_add e (Usable_ptr p) t =
     t\<lparr>usable_terms := term_set_add e p (usable_terms t)\<rparr>"
| "terms_add e (Additive_ptr p) t =
     t\<lparr>additive_terms := term_set_add e p (additive_terms t)\<rparr>"
| "terms_add e (Intermolecular_ptr p) t =
     t\<lparr>intermolecular_terms := term_set_add e p (intermolecular_terms t)\<rparr>"
| "terms_add e (Conf_independent_ptr p) t =
     t\<lparr>conf_independent_terms := term_set_add e p (conf_independent_terms t)\<rparr>"

section \<open>The rounding is to nearest\<close>

text \<open>
  \<open>floor_log2\<close> finds the binade of a positive number, and \<open>fl_round p\<close> moves a number
  by at most half a unit in its last place.
\<close>

lemma bit_length_pos: "0 < n \<Longrightarrow> 0 < bit_length n"
proof -
  assume "0 < n"
  then have "bit_length n = bit_length (n div 2) + 1"
    by (subst bit_length.simps) (simp del: bit_length.simps)
  moreover have "0 \<le> bit_length (n div 2)"
  proof (induction "n div 2" arbitrary: n rule: bit_length.induct)
    case 1
    then show ?case
      by (subst bit_length.simps) (simp del: bit_length.simps)
  qed
  ultimately show ?thesis by (simp del: bit_length.simps)
qed

lemma bit_length_Suc: "0 < n \<Longrightarrow> \<exists>k. bit_length n = int (Suc k)"
proof -
  assume "0 < n"
  then have "0 < bit_length n"
    by (rule bit_length_pos)
  then have "bit_length n = int (Suc (nat (bit_length n) - 1))"
    by (simp del: bit_length.simps)
  then show ?thesis ..
qed

lemma bit_length_bounds:
  "0 < n \<Longrightarrow> 2 ^ nat (bit_length n - 1) \<le> n \<and> n < 2 ^ nat (bit_length n)"
proof (induction n rule: bit_length.induct)
  case (1 n)
  have u: "bit_length n = bit_length (n div 2) + 1"
    using 1(2) by (subst bit_length.simps) (simp del: bit_length.simps)
  show ?case
  proof (cases "n = 1")
    case True
    then show ?thesis by simp
  next
    case False
    with 1(2) have h: "0 < n div 2" by simp
    from 1(1) [OF 1(2) h]
    have a: "2 ^ nat (bit_length (n div 2) - 1) \<le> n div 2"
      and b: "n div 2 < 2 ^ nat (bit_length (n div 2))"
      by (simp_all del: bit_length.simps)
    from h obtain k where k: "bit_length (n div 2) = int (Suc k)"
      using bit_length_Suc by blast
    from a b k have a': "(2::int) ^ k \<le> n div 2" and b': "n div 2 < 2 ^ Suc k"
      by (simp_all add: nat_add_distrib del: bit_length.simps)
    from a' have "2 ^ Suc k \<le> n" by simp
    moreover from b' have "n < 2 ^ Suc (Suc k)" by simp
    ultimately show ?thesis
      by (simp add: u k nat_add_distrib del: bit_length.simps)
  qed
qed

lemma floor_log2_bounds:
  assumes "0 < x"
  shows "2 powi (floor_log2 x) \<le> x \<and> x < 2 powi (floor_log2 x + 1)"
proof (cases "1 \<le> x")
  case True
  let ?n = "\<lfloor>x\<rfloor>"
  from True have n: "0 < ?n" by simp
  from n obtain k where k: "bit_length ?n = int (Suc k)"
    using bit_length_Suc by blast
  from bit_length_bounds [OF n] k have "(2::int) ^ k \<le> ?n" and "?n < 2 ^ Suc k"
    by (simp_all add: nat_add_distrib del: bit_length.simps)
  then have "(2::real) ^ k \<le> x" and "x < 2 ^ Suc k"
    by (simp_all add: le_floor_iff floor_less_iff del: bit_length.simps)
  moreover have "floor_log2 x = int k"
    using True k by (simp add: floor_log2_def del: bit_length.simps)
  ultimately show ?thesis
    by (simp add: power_int_add_1 del: bit_length.simps) 
next
  case False
  let ?t = "\<lfloor>1 / x\<rfloor>"
  from False assms have x1: "x < 1" and ix: "1 < 1 / x" by simp_all
  then have t: "0 < ?t" by simp
  from t obtain k where k: "bit_length ?t = int (Suc k)"
    using bit_length_Suc by blast
  from bit_length_bounds [OF t] k have "(2::int) ^ k \<le> ?t" and "?t < 2 ^ Suc k"
    by (simp_all add: nat_add_distrib del: bit_length.simps)
  then have lo: "(2::real) ^ k \<le> 1 / x" and hi: "1 / x < 2 ^ Suc k"
    by (simp_all add: le_floor_iff floor_less_iff del: bit_length.simps)
  from lo assms have a: "x * 2 ^ k \<le> 1"
    by (simp add: field_simps)
  from hi assms have b: "1 < x * 2 ^ Suc k"
    by (simp add: field_simps)
  show ?thesis
  proof (cases "x * 2 ^ k = 1")
    case True
    then have e: "floor_log2 x = - int k"
      using False k by (simp add: floor_log2_def Let_def del: bit_length.simps)
    from True have x: "x = 1 / 2 ^ k" by (simp add: field_simps)
    have "(2::real) powi (floor_log2 x) = 1 / 2 ^ k"
      by (simp add: e power_int_minus field_simps del: bit_length.simps)
    moreover have "(2::real) powi (floor_log2 x + 1) = 2 / 2 ^ k"
      by (simp add: e power_int_diff del: bit_length.simps)
    moreover have "(1::real) / 2 ^ k < 2 / 2 ^ k"
      by (simp add: divide_strict_right_mono)
    ultimately show ?thesis
      by (simp only: x) simp
  next
    case F: False
    then have e: "floor_log2 x = - int k - 1"
      using False k by (simp add: floor_log2_def Let_def del: bit_length.simps)
    from a F have "x * 2 ^ k < 1" by simp
    with b show ?thesis
      by (simp add: e power_int_minus power_int_diff field_simps del: bit_length.simps)
  qed
qed

lemma round_half_even_error: "\<bar>of_int (round_half_even y) - y\<bar> \<le> 1 / 2"
proof -
  have "of_int \<lfloor>y\<rfloor> \<le> y" and "y < of_int \<lfloor>y\<rfloor> + 1"
    by linarith+
  then show ?thesis
    by (auto simp: round_half_even_def Let_def abs_le_iff)
qed

lemma fl_round_error:
  assumes "x \<noteq> 0"
  shows "\<bar>fl_round p x - x\<bar> \<le> 2 powi (floor_log2 \<bar>x\<bar> - (int p - 1)) / 2"
proof -
  define q where "q = floor_log2 \<bar>x\<bar> - (int p - 1)"
  define m where "m = round_half_even (\<bar>x\<bar> * 2 powi (- q))"
  have r: "fl_round p x = sgn x * (of_int m * 2 powi q)"
    using assms by (simp add: fl_round_def Let_def q_def m_def)
  have pq: "(2::real) powi (- q) * 2 powi q = 1"
    by (simp add: power_int_minus)
  have "fl_round p x - x = sgn x * (of_int m * 2 powi q - \<bar>x\<bar>)"
    by (simp add: r algebra_simps mult_sgn_abs abs_mult_sgn)
  also have "of_int m * 2 powi q - \<bar>x\<bar> = (of_int m - \<bar>x\<bar> * 2 powi (- q)) * 2 powi q"
    using pq by (simp add: algebra_simps)
  finally have "\<bar>fl_round p x - x\<bar> = \<bar>of_int m - \<bar>x\<bar> * 2 powi (- q)\<bar> * 2 powi q"
    using assms by (simp add: abs_mult abs_sgn_eq)
  also have "\<dots> \<le> 1 / 2 * 2 powi q"
    using round_half_even_error [of "\<bar>x\<bar> * 2 powi (- q)"]
    by (intro mult_right_mono) (simp_all add: m_def)
  finally show ?thesis
    by (simp add: q_def)
qed

section \<open>The loops in closed form\<close>

text \<open>
  Each loop is characterised by the positions it visits. Its recursive equation is
  unfolded one step at a time and kept away from the simplifier.
\<close>

lemma num_enabled_loop_count:
  "num_enabled_loop en i tmp = tmp + length (filter (\<lambda>k. en ! k) [i..<length en])"
proof (induction en i tmp rule: num_enabled_loop.induct)
  case (1 en i tmp)
  show ?case
  proof (cases "i < length en")
    case True
    then show ?thesis
      using 1
      by (subst num_enabled_loop.simps) (simp add: upt_conv_Cons del: num_enabled_loop.simps)
  next
    case False
    then show ?thesis
      by (subst num_enabled_loop.simps) (simp del: num_enabled_loop.simps)
  qed
qed

lemma get_names_loop_eq:
  "length en = length fs \<Longrightarrow>
   get_names_loop en fs eo i out =
     Inr (out @ map (\<lambda>k. name (fs ! k))
            (filter (\<lambda>k. if eo then en ! k else True) [i..<length fs]))"
proof (induction en fs eo i out rule: get_names_loop.induct)
  case (1 en fs eo i out)
  show ?case
  proof (cases "i < length fs")
    case True
    then show ?thesis
      using 1
      by (subst get_names_loop.simps) (simp add: upt_conv_Cons del: get_names_loop.simps)
  next
    case False
    then show ?thesis
      by (subst get_names_loop.simps) (simp del: get_names_loop.simps)
  qed
qed

lemma filter_loop_eq:
  "pos + (length en - i) \<le> length v \<Longrightarrow>
   filter_loop en v i pos out =
     Inr (pos + (length en - i),
          out @ map (\<lambda>k. v ! (pos + (k - i))) (filter (\<lambda>k. en ! k) [i..<length en]))"
proof (induction en v i pos out rule: filter_loop.induct)
  case (1 en v i pos out)
  show ?case
  proof (cases "i < length en")
    case True
    with 1(3) have p: "pos < length v" and q: "Suc pos + (length en - Suc i) \<le> length v"
      by simp_all
    have m: "map (\<lambda>k. v ! (Suc pos + (k - Suc i))) (filter (\<lambda>k. en ! k) [Suc i..<length en]) =
             map (\<lambda>k. v ! (pos + (k - i))) (filter (\<lambda>k. en ! k) [Suc i..<length en])"
    proof (rule map_cong [OF refl])
      fix k
      assume "k \<in> set (filter (\<lambda>k. en ! k) [Suc i..<length en])"
      then have "Suc i \<le> k" by simp
      then have "Suc pos + (k - Suc i) = pos + (k - i)" by arith
      then show "v ! (Suc pos + (k - Suc i)) = v ! (pos + (k - i))"
        by (rule arg_cong)
    qed
    show ?thesis
    proof (cases "en ! i")
      case True
      from 1(1) [OF \<open>i < length en\<close> True p q] m \<open>i < length en\<close> p True show ?thesis
        by (subst filter_loop.simps) (simp add: upt_conv_Cons del: filter_loop.simps)
    next
      case False
      from 1(2) [OF \<open>i < length en\<close> False q] m \<open>i < length en\<close> False show ?thesis
        by (subst filter_loop.simps) (simp add: upt_conv_Cons del: filter_loop.simps)
    qed
  next
    case False
    then show ?thesis
      by (subst filter_loop.simps) (simp del: filter_loop.simps)
  qed
qed

lemma weighted_sum_loop_eq:
  "k \<le> length g \<Longrightarrow>
   weighted_sum_loop g w k tmp = tmp + (\<Sum>j = k..<length g. g ! j * w ! j)"
proof (induction g w k tmp rule: weighted_sum_loop.induct)
  case (1 g w k tmp)
  show ?case
  proof (cases "k < length g")
    case True
    then show ?thesis
      using 1
      by (subst weighted_sum_loop.simps)
        (simp add: sum.atLeast_Suc_lessThan del: weighted_sum_loop.simps)
  next
    case False
    with 1(2) show ?thesis
      by (subst weighted_sum_loop.simps) (simp del: weighted_sum_loop.simps)
  qed
qed

lemma Max_insert_max:
  fixes S :: "real set"
  assumes "finite S"
  shows "Max (insert (max t x) S) = Max (insert t (insert x S))"
proof (cases "S = {}")
  case True
  then show ?thesis by simp
next
  case False
  with assms show ?thesis by (simp add: max.assoc)
qed

lemma max_cutoff_loop_eq:
  "max_cutoff_loop c fs i tmp = Max (insert tmp (c ` set (drop i fs)))"
proof (induction c fs i tmp rule: max_cutoff_loop.induct)
  case (1 c fs i tmp)
  show ?case
  proof (cases "i < length fs")
    case True
    then have d: "drop i fs = fs ! i # drop (Suc i) fs"
      by (simp add: Cons_nth_drop_Suc)
    have "max_cutoff_loop c fs i tmp =
          Max (insert (max tmp (c (fs ! i))) (c ` set (drop (Suc i) fs)))"
      using True 1 by (subst max_cutoff_loop.simps) (simp del: max_cutoff_loop.simps)
    also have "\<dots> = Max (insert tmp (insert (c (fs ! i)) (c ` set (drop (Suc i) fs))))"
      by (rule Max_insert_max) simp
    finally show ?thesis
      by (simp add: d)
  next
    case False
    then show ?thesis
      by (subst max_cutoff_loop.simps) (simp del: max_cutoff_loop.simps)
  qed
qed

section \<open>Charge decomposition\<close>

text \<open>
  C1. For a charge-dependent term, atoms a and b and a distance r, \<open>eval\<close> is the type-only
  coefficient plus the charge of a times the a-charge coefficient plus the charge of b
  times the b-charge coefficient plus the product of both charges times the ab-charge
  coefficient, where the coefficients are \<open>eval_components\<close> at the types of a and b and
  r. With coefficients 1, 2, 3, 4 and charges 1/2 and -1 the value is -3.
\<close>

theorem charge_dependent_eval_formula:
  "charge_dependent_eval t a b r =
     type_dependent_only (eval_components t (sm a) (sm b) r) +
     charge a * a_charge_dependent (eval_components t (sm a) (sm b) r) +
     charge b * b_charge_dependent (eval_components t (sm a) (sm b) r) +
     charge a * charge b * ab_charge_dependent (eval_components t (sm a) (sm b) r)
   \<and> charge_dependent_eval
       (t\<lparr>eval_components := \<lambda>t1 t2 d.
            \<lparr>type_dependent_only = 1, a_charge_dependent = 2,
             b_charge_dependent = 3, ab_charge_dependent = 4\<rparr>\<rparr>)
       (a\<lparr>charge := 1/2\<rparr>) (b\<lparr>charge := - 1\<rparr>) r = - 3"
  by (simp add: charge_dependent_eval_def Let_def)

text \<open>
  The claim C8 says that combining \<open>components\<close> values is associative for all x, y and
  z. The slots are added with the machine addition of \<^verbatim>\<open>fl\<close>, which rounds. With the
  doubles nearest to 0.1, 0.2 and 0.3 in the type-only slot, \<open>(x + y) + z\<close> holds
  0.6000000000000001 there and \<open>x + (y + z)\<close> holds 0.6. With 1, -1 and \<open>2^-60\<close> in the
  charge-scaled slots, \<open>(x + y) + z\<close> holds \<open>2^-60\<close> and \<open>x + (y + z)\<close> holds 0, in double
  and in single precision alike.
\<close>

theorem components_add_assoc_counterexample:
  "components_add (fl_round 53)
    (components_add (fl_round 53)
       \<lparr>type_dependent_only = fl_round 53 (1/10), a_charge_dependent = 1,
        b_charge_dependent = 1, ab_charge_dependent = 1\<rparr>
       \<lparr>type_dependent_only = fl_round 53 (2/10), a_charge_dependent = - 1,
        b_charge_dependent = - 1, ab_charge_dependent = - 1\<rparr>)
    \<lparr>type_dependent_only = fl_round 53 (3/10), a_charge_dependent = 1 / 2 ^ 60,
     b_charge_dependent = 1 / 2 ^ 60, ab_charge_dependent = 1 / 2 ^ 60\<rparr>
   \<noteq> components_add (fl_round 53)
       \<lparr>type_dependent_only = fl_round 53 (1/10), a_charge_dependent = 1,
        b_charge_dependent = 1, ab_charge_dependent = 1\<rparr>
       (components_add (fl_round 53)
          \<lparr>type_dependent_only = fl_round 53 (2/10), a_charge_dependent = - 1,
           b_charge_dependent = - 1, ab_charge_dependent = - 1\<rparr>
          \<lparr>type_dependent_only = fl_round 53 (3/10), a_charge_dependent = 1 / 2 ^ 60,
           b_charge_dependent = 1 / 2 ^ 60, ab_charge_dependent = 1 / 2 ^ 60\<rparr>)
   \<and> type_dependent_only
        (components_add (fl_round 53)
           (components_add (fl_round 53)
              \<lparr>type_dependent_only = fl_round 53 (1/10), a_charge_dependent = 1,
               b_charge_dependent = 1, ab_charge_dependent = 1\<rparr>
              \<lparr>type_dependent_only = fl_round 53 (2/10), a_charge_dependent = - 1,
               b_charge_dependent = - 1, ab_charge_dependent = - 1\<rparr>)
           \<lparr>type_dependent_only = fl_round 53 (3/10), a_charge_dependent = 1 / 2 ^ 60,
            b_charge_dependent = 1 / 2 ^ 60, ab_charge_dependent = 1 / 2 ^ 60\<rparr>)
       = 1351079888211149 / 2 ^ 51
   \<and> type_dependent_only
        (components_add (fl_round 53)
           \<lparr>type_dependent_only = fl_round 53 (1/10), a_charge_dependent = 1,
            b_charge_dependent = 1, ab_charge_dependent = 1\<rparr>
           (components_add (fl_round 53)
              \<lparr>type_dependent_only = fl_round 53 (2/10), a_charge_dependent = - 1,
               b_charge_dependent = - 1, ab_charge_dependent = - 1\<rparr>
              \<lparr>type_dependent_only = fl_round 53 (3/10), a_charge_dependent = 1 / 2 ^ 60,
               b_charge_dependent = 1 / 2 ^ 60, ab_charge_dependent = 1 / 2 ^ 60\<rparr>))
       = 5404319552844595 / 2 ^ 53
   \<and> a_charge_dependent
        (components_add (fl_round 53)
           (components_add (fl_round 53)
              \<lparr>type_dependent_only = fl_round 53 (1/10), a_charge_dependent = 1,
               b_charge_dependent = 1, ab_charge_dependent = 1\<rparr>
              \<lparr>type_dependent_only = fl_round 53 (2/10), a_charge_dependent = - 1,
               b_charge_dependent = - 1, ab_charge_dependent = - 1\<rparr>)
           \<lparr>type_dependent_only = fl_round 53 (3/10), a_charge_dependent = 1 / 2 ^ 60,
            b_charge_dependent = 1 / 2 ^ 60, ab_charge_dependent = 1 / 2 ^ 60\<rparr>)
       = 1 / 2 ^ 60
   \<and> a_charge_dependent
        (components_add (fl_round 53)
           \<lparr>type_dependent_only = fl_round 53 (1/10), a_charge_dependent = 1,
            b_charge_dependent = 1, ab_charge_dependent = 1\<rparr>
           (components_add (fl_round 53)
              \<lparr>type_dependent_only = fl_round 53 (2/10), a_charge_dependent = - 1,
               b_charge_dependent = - 1, ab_charge_dependent = - 1\<rparr>
              \<lparr>type_dependent_only = fl_round 53 (3/10), a_charge_dependent = 1 / 2 ^ 60,
               b_charge_dependent = 1 / 2 ^ 60, ab_charge_dependent = 1 / 2 ^ 60\<rparr>))
       = 0
   \<and> components_add (fl_round 24)
       (components_add (fl_round 24)
          \<lparr>type_dependent_only = fl_round 24 (1/10), a_charge_dependent = 1,
           b_charge_dependent = 1, ab_charge_dependent = 1\<rparr>
          \<lparr>type_dependent_only = fl_round 24 (2/10), a_charge_dependent = - 1,
           b_charge_dependent = - 1, ab_charge_dependent = - 1\<rparr>)
       \<lparr>type_dependent_only = fl_round 24 (3/10), a_charge_dependent = 1 / 2 ^ 60,
        b_charge_dependent = 1 / 2 ^ 60, ab_charge_dependent = 1 / 2 ^ 60\<rparr>
   \<noteq> components_add (fl_round 24)
       \<lparr>type_dependent_only = fl_round 24 (1/10), a_charge_dependent = 1,
        b_charge_dependent = 1, ab_charge_dependent = 1\<rparr>
       (components_add (fl_round 24)
          \<lparr>type_dependent_only = fl_round 24 (2/10), a_charge_dependent = - 1,
           b_charge_dependent = - 1, ab_charge_dependent = - 1\<rparr>
          \<lparr>type_dependent_only = fl_round 24 (3/10), a_charge_dependent = 1 / 2 ^ 60,
           b_charge_dependent = 1 / 2 ^ 60, ab_charge_dependent = 1 / 2 ^ 60\<rparr>)"
  by (simp add: components_add_def fl_add_def fl_round_def floor_log2_def
      round_half_even_def Let_def)

text \<open>
  C8, amended. Combining two \<open>components\<close> values adds the four coefficients slot by slot
  with the addition of the scalar type, and the combination is commutative. It is
  associative where the sums \<open>x + y\<close> and \<open>y + z\<close> need no rounding in any slot, and for all
  x, y and z in exact arithmetic. Combining a plain scalar into a \<open>components\<close> value adds
  it to the type-only slot and leaves the three charge-scaled slots as they were.
\<close>

theorem components_add_comm_exact_assoc:
  "components_add rnd x y = components_add rnd y x
   \<and> type_dependent_only (components_add rnd x y)
       = rnd (type_dependent_only x + type_dependent_only y)
   \<and> a_charge_dependent (components_add rnd x y)
       = rnd (a_charge_dependent x + a_charge_dependent y)
   \<and> b_charge_dependent (components_add rnd x y)
       = rnd (b_charge_dependent x + b_charge_dependent y)
   \<and> ab_charge_dependent (components_add rnd x y)
       = rnd (ab_charge_dependent x + ab_charge_dependent y)
   \<and> (sums_exact rnd x y \<and> sums_exact rnd y z \<longrightarrow>
        components_add rnd (components_add rnd x y) z
          = components_add rnd x (components_add rnd y z))
   \<and> components_add (\<lambda>v. v) (components_add (\<lambda>v. v) x y) z
       = components_add (\<lambda>v. v) x (components_add (\<lambda>v. v) y z)
   \<and> type_dependent_only (components_add_val rnd x val) = rnd (type_dependent_only x + val)
   \<and> a_charge_dependent (components_add_val rnd x val) = a_charge_dependent x
   \<and> b_charge_dependent (components_add_val rnd x val) = b_charge_dependent x
   \<and> ab_charge_dependent (components_add_val rnd x val) = ab_charge_dependent x"
proof -
  have comm: "components_add rnd x y = components_add rnd y x"
    by (cases x, cases y) (simp add: components_add_def fl_add_def add.commute)
  have exact: "components_add rnd (components_add rnd x y) z
                 = components_add rnd x (components_add rnd y z)"
    if "sums_exact rnd x y" and "sums_exact rnd y z"
    using that
    by (cases x, cases y, cases z)
      (simp add: components_add_def fl_add_def sums_exact_def add.assoc)
  have ideal: "components_add (\<lambda>v. v) (components_add (\<lambda>v. v) x y) z
                 = components_add (\<lambda>v. v) x (components_add (\<lambda>v. v) y z)"
    by (cases x, cases y, cases z) (simp add: components_add_def fl_add_def)
  have slots: "type_dependent_only (components_add rnd x y)
                 = rnd (type_dependent_only x + type_dependent_only y)"
    "a_charge_dependent (components_add rnd x y)
       = rnd (a_charge_dependent x + a_charge_dependent y)"
    "b_charge_dependent (components_add rnd x y)
       = rnd (b_charge_dependent x + b_charge_dependent y)"
    "ab_charge_dependent (components_add rnd x y)
       = rnd (ab_charge_dependent x + ab_charge_dependent y)"
    by (simp_all add: components_add_def fl_add_def)
  have val: "type_dependent_only (components_add_val rnd x val)
               = rnd (type_dependent_only x + val)"
    "a_charge_dependent (components_add_val rnd x val) = a_charge_dependent x"
    "b_charge_dependent (components_add_val rnd x val) = b_charge_dependent x"
    "ab_charge_dependent (components_add_val rnd x val) = ab_charge_dependent x"
    by (simp_all add: components_add_val_def fl_add_def)
  show ?thesis
    by (intro conjI impI comm slots val ideal exact) simp_all
qed

theorem components_add_comm_exact_assoc_witness:
  "sums_exact (fl_round 53)
     \<lparr>type_dependent_only = 1, a_charge_dependent = 2,
      b_charge_dependent = 3, ab_charge_dependent = 4\<rparr>
     \<lparr>type_dependent_only = 1/2, a_charge_dependent = - 6,
      b_charge_dependent = 7, ab_charge_dependent = 1/4\<rparr>
   \<and> sums_exact (fl_round 53)
     \<lparr>type_dependent_only = 1/2, a_charge_dependent = - 6,
      b_charge_dependent = 7, ab_charge_dependent = 1/4\<rparr>
     \<lparr>type_dependent_only = 5, a_charge_dependent = 1,
      b_charge_dependent = - 3, ab_charge_dependent = 8\<rparr>
   \<and> components_add (fl_round 53)
       (components_add (fl_round 53)
          \<lparr>type_dependent_only = 1, a_charge_dependent = 2,
           b_charge_dependent = 3, ab_charge_dependent = 4\<rparr>
          \<lparr>type_dependent_only = 1/2, a_charge_dependent = - 6,
           b_charge_dependent = 7, ab_charge_dependent = 1/4\<rparr>)
       \<lparr>type_dependent_only = 5, a_charge_dependent = 1,
        b_charge_dependent = - 3, ab_charge_dependent = 8\<rparr>
     = components_add (fl_round 53)
         \<lparr>type_dependent_only = 1, a_charge_dependent = 2,
          b_charge_dependent = 3, ab_charge_dependent = 4\<rparr>
         (components_add (fl_round 53)
            \<lparr>type_dependent_only = 1/2, a_charge_dependent = - 6,
             b_charge_dependent = 7, ab_charge_dependent = 1/4\<rparr>
            \<lparr>type_dependent_only = 5, a_charge_dependent = 1,
             b_charge_dependent = - 3, ab_charge_dependent = 8\<rparr>)"
proof -
  have xy: "sums_exact (fl_round 53)
     \<lparr>type_dependent_only = 1, a_charge_dependent = 2,
      b_charge_dependent = 3, ab_charge_dependent = 4\<rparr>
     \<lparr>type_dependent_only = 1/2, a_charge_dependent = - 6,
      b_charge_dependent = 7, ab_charge_dependent = 1/4\<rparr>"
    by (simp add: sums_exact_def fl_round_def floor_log2_def round_half_even_def Let_def)
  have yz: "sums_exact (fl_round 53)
     \<lparr>type_dependent_only = 1/2, a_charge_dependent = - 6,
      b_charge_dependent = 7, ab_charge_dependent = 1/4\<rparr>
     \<lparr>type_dependent_only = 5, a_charge_dependent = 1,
      b_charge_dependent = - 3, ab_charge_dependent = 8\<rparr>"
    by (simp add: sums_exact_def fl_round_def floor_log2_def round_half_even_def Let_def)
  from components_add_comm_exact_assoc [of "fl_round 53"
     "\<lparr>type_dependent_only = 1, a_charge_dependent = 2,
      b_charge_dependent = 3, ab_charge_dependent = 4\<rparr>"
     "\<lparr>type_dependent_only = 1/2, a_charge_dependent = - 6,
      b_charge_dependent = 7, ab_charge_dependent = 1/4\<rparr>"
     "\<lparr>type_dependent_only = 5, a_charge_dependent = 1,
      b_charge_dependent = - 3, ab_charge_dependent = 8\<rparr>"] xy yz
  show ?thesis
    by blast
qed

section \<open>Usable terms\<close>

text \<open>
  C6. The two-type evaluation of a usable term that does not override it raises the
  failure signal and returns the sentinel 0, also when it is reached through the
  atom-pair evaluation: no outcome of it comes without the signal.
\<close>

theorem usable_eval_default_signals:
  "usable_eval_default t1 t2 r = \<lparr>failure_signal = True, returned = 0\<rparr>
   \<and> usable_eval_smt (u\<lparr>eval_types := None\<rparr>) t1 t2 r = \<lparr>failure_signal = True, returned = 0\<rparr>
   \<and> usable_eval (u\<lparr>eval_types := None\<rparr>) a b r = \<lparr>failure_signal = True, returned = 0\<rparr>"
  by (simp add: usable_eval_def usable_eval_smt_def usable_eval_default_def VINA_CHECK_def)

text \<open>
  C10. The atom-pair evaluation of a usable term does not depend on the charges of the
  atoms: two pairs of atoms with the same atom types give the same outcome at the same
  distance, whatever their charges, and for a term that overrides the two-type evaluation
  the outcome is the override at the two types and the distance.
\<close>

theorem usable_eval_charge_independent:
  assumes "sm a = sm a'" and "sm b = sm b'"
  shows "usable_eval u a b r = usable_eval u a' b' r
       \<and> usable_eval u (a\<lparr>charge := qa\<rparr>) (b\<lparr>charge := qb\<rparr>) r = usable_eval u a b r
       \<and> (\<forall>f. eval_types u = Some f \<longrightarrow> usable_eval u a b r = f (sm a) (sm b) r)"
  using assms by (simp add: usable_eval_def usable_eval_smt_def atom_base_get_def)

theorem usable_eval_charge_independent_witness:
  "sm \<lparr>sm = 3, charge = 1/2\<rparr> = sm \<lparr>sm = 3, charge = - 1\<rparr>
   \<and> sm \<lparr>sm = 5, charge = 0\<rparr> = sm \<lparr>sm = 5, charge = 2\<rparr>
   \<and> usable_eval \<lparr>name = ''gauss'', distance_additive.cutoff = 8,
          eval_types = Some (\<lambda>t1 t2 d. \<lparr>failure_signal = False, returned = real (t1 + t2) * d\<rparr>)\<rparr>
        \<lparr>sm = 3, charge = 1/2\<rparr> \<lparr>sm = 5, charge = 0\<rparr> 2
     = usable_eval \<lparr>name = ''gauss'', distance_additive.cutoff = 8,
          eval_types = Some (\<lambda>t1 t2 d. \<lparr>failure_signal = False, returned = real (t1 + t2) * d\<rparr>)\<rparr>
        \<lparr>sm = 3, charge = - 1\<rparr> \<lparr>sm = 5, charge = 2\<rparr> 2
   \<and> usable_eval \<lparr>name = ''gauss'', distance_additive.cutoff = 8,
          eval_types = Some (\<lambda>t1 t2 d. \<lparr>failure_signal = False, returned = real (t1 + t2) * d\<rparr>)\<rparr>
        \<lparr>sm = 3, charge = 1/2\<rparr> \<lparr>sm = 5, charge = 0\<rparr> 2
     = \<lparr>failure_signal = False, returned = 16\<rparr>"
  using usable_eval_charge_independent [where a = "\<lparr>sm = 3, charge = 1/2\<rparr>"
      and a' = "\<lparr>sm = 3, charge = - 1\<rparr>" and b = "\<lparr>sm = 5, charge = 0\<rparr>"
      and b' = "\<lparr>sm = 5, charge = 2\<rparr>" and r = 2 and qa = 0 and qb = 0
      and u = "\<lparr>name = ''gauss'', distance_additive.cutoff = 8,
          eval_types = Some (\<lambda>t1 t2 d. \<lparr>failure_signal = False, returned = real (t1 + t2) * d\<rparr>)\<rparr>"]
  by auto

section \<open>The registry\<close>

lemma term_set_add_all_enabled:
  "enabled (term_set_add_all calls ts) = enabled ts @ map (\<lambda>c. 0 < fst c) calls"
  by (induction calls ts rule: term_set_add_all.induct) (simp_all add: term_set_add_def)

lemma term_set_add_all_funs:
  "funs (term_set_add_all calls ts) = funs ts @ map snd calls"
  by (induction calls ts rule: term_set_add_all.induct) (simp_all add: term_set_add_def)

text \<open>
  C2. Starting from a registry whose flag and term vectors have the same length, after
  each call of a sequence of \<open>add\<close> calls the two vectors have the same length; the
  flag at the position of the k-th call is true exactly when the weight of that call is
  greater than 0, the term at that position is the term of that call, and the entries
  that were there before keep their places. Starting from the empty registry, the flags
  are the tests \<open>weight > 0\<close> of the calls and the terms are the terms of the calls, in
  the order of the calls.
\<close>

theorem term_set_add_all_flags:
  assumes "length (enabled ts) = length (funs ts)"
  shows "(\<forall>n\<le>length calls.
            length (enabled (term_set_add_all (take n calls) ts)) =
            length (funs (term_set_add_all (take n calls) ts)))
       \<and> (\<forall>k<length calls.
            enabled (term_set_add_all calls ts) ! (term_set_size ts + k) = (0 < fst (calls ! k))
          \<and> funs (term_set_add_all calls ts) ! (term_set_size ts + k) = snd (calls ! k))
       \<and> take (term_set_size ts) (enabled (term_set_add_all calls ts)) = enabled ts
       \<and> take (term_set_size ts) (funs (term_set_add_all calls ts)) = funs ts
       \<and> term_set_size (term_set_add_all calls ts) = term_set_size ts + length calls
       \<and> enabled (term_set_add_all calls term_set_empty) = map (\<lambda>c. 0 < fst c) calls
       \<and> funs (term_set_add_all calls term_set_empty) = map snd calls"
  using assms
  by (simp add: term_set_add_all_enabled term_set_add_all_funs term_set_size_def nth_append
      term_set_empty_def)

theorem term_set_add_all_flags_witness:
  "length (enabled (term_set_empty :: string term_set)) = length (funs (term_set_empty :: string term_set))
   \<and> enabled (term_set_add_all [(2, ''gauss''), (0, ''repulsion''), (1, ''hydrophobic'')] term_set_empty)
       = [True, False, True]
   \<and> funs (term_set_add_all [(2, ''gauss''), (0, ''repulsion''), (1, ''hydrophobic'')] term_set_empty)
       = [''gauss'', ''repulsion'', ''hydrophobic'']"
  using term_set_add_all_flags [of "term_set_empty :: string term_set"
     "[(2, ''gauss''), (0, ''repulsion''), (1, ''hydrophobic'')]"]
  by (simp add: term_set_empty_def del: term_set_add_all.simps)


text \<open>
  C3. For a registry whose flag and term vectors have the same length and an input
  iterator with at least \<open>size()\<close> values ahead of it, \<open>filter\<close> raises no failure signal,
  leaves the iterator exactly \<open>size()\<close> positions further, and appends to \<open>out\<close>, behind
  what \<open>out\<close> held, the input values at the enabled positions in their order and nothing
  else; that is \<open>num_enabled()\<close> values.
\<close>

theorem term_set_filter_consumes:
  assumes "length (enabled ts) = length (funs ts)"
    and "pos + term_set_size ts \<le> length v"
  shows "term_set_filter ts v pos out =
           \<lparr>failure_signal = False,
            returned = Inr (pos + term_set_size ts,
                            out @ map (\<lambda>k. v ! (pos + k))
                                    (filter (\<lambda>k. enabled ts ! k) [0..<term_set_size ts]))\<rparr>
       \<and> length (map (\<lambda>k. v ! (pos + k)) (filter (\<lambda>k. enabled ts ! k) [0..<term_set_size ts]))
           = term_set_num_enabled ts"
proof -
  have n: "term_set_size ts = length (enabled ts)"
    using assms(1) by (simp add: term_set_size_def)
  have "pos + (length (enabled ts) - 0) \<le> length v"
    using assms(2) n by simp
  from filter_loop_eq [OF this, of out]
  have "filter_loop (enabled ts) v 0 pos out =
          Inr (pos + term_set_size ts,
               out @ map (\<lambda>k. v ! (pos + k))
                       (filter (\<lambda>k. enabled ts ! k) [0..<term_set_size ts]))"
    by (simp add: n del: filter_loop.simps)
  moreover have "VINA_CHECK (length (enabled ts) = length (funs ts)) False = False"
    using assms(1) by (simp add: VINA_CHECK_def)
  moreover have "length (filter (\<lambda>k. enabled ts ! k) [0..<term_set_size ts])
                   = term_set_num_enabled ts"
    by (simp add: term_set_num_enabled_def num_enabled_loop_count n del: num_enabled_loop.simps)
  ultimately show ?thesis
    by (simp add: term_set_filter_def)
qed

theorem term_set_filter_consumes_witness:
  "length (enabled \<lparr>enabled = [True, False, True], funs = [''gauss'', ''repulsion'', ''hydrophobic'']\<rparr>)
     = length (funs \<lparr>enabled = [True, False, True], funs = [''gauss'', ''repulsion'', ''hydrophobic'']\<rparr>)
   \<and> 1 + term_set_size \<lparr>enabled = [True, False, True], funs = [''gauss'', ''repulsion'', ''hydrophobic'']\<rparr>
       \<le> length [5, 10, 20, 30, 40 :: real]
   \<and> term_set_filter \<lparr>enabled = [True, False, True], funs = [''gauss'', ''repulsion'', ''hydrophobic'']\<rparr>
        [5, 10, 20, 30, 40] 1 [7]
       = \<lparr>failure_signal = False, returned = Inr (4, [7, 10, 30])\<rparr>
   \<and> term_set_num_enabled \<lparr>enabled = [True, False, True], funs = [''gauss'', ''repulsion'', ''hydrophobic'']\<rparr> = 2"
  using term_set_filter_consumes [of "\<lparr>enabled = [True, False, True], funs = [''gauss'', ''repulsion'', ''hydrophobic'']\<rparr>"
      1 "[5, 10, 20, 30, 40]" "[7]"]
  by (simp add: term_set_size_def upt_rec)

text \<open>
  C7. For a registry whose flag and term vectors have the same length, \<open>get_names\<close> raises
  no failure signal and appends names to \<open>out\<close> in registration order, behind what \<open>out\<close>
  held: with \<open>enabled_only\<close> set, the names at the positions whose flag is true; with
  \<open>enabled_only\<close> unset, all names.
\<close>

theorem term_set_get_names_appends:
  assumes "length (enabled ts) = length (funs ts)"
  shows "term_set_get_names ts enabled_only out =
           \<lparr>failure_signal = False,
            returned = Inr (out @ map (\<lambda>k. name (funs ts ! k))
                                    (filter (\<lambda>k. if enabled_only then enabled ts ! k else True)
                                       [0..<term_set_size ts]))\<rparr>
       \<and> term_set_get_names ts True out =
           \<lparr>failure_signal = False,
            returned = Inr (out @ map (\<lambda>k. name (funs ts ! k))
                                    (filter (\<lambda>k. enabled ts ! k) [0..<term_set_size ts]))\<rparr>
       \<and> term_set_get_names ts False out =
           \<lparr>failure_signal = False, returned = Inr (out @ map name (funs ts))\<rparr>"
proof -
  have c: "VINA_CHECK (length (enabled ts) = length (funs ts)) False = False"
    using assms by (simp add: VINA_CHECK_def)
  have a: "map (\<lambda>k. name (funs ts ! k)) [0..<length (funs ts)] = map name (funs ts)"
    by (rule nth_equalityI) simp_all
  show ?thesis
    using a
    by (simp add: term_set_get_names_def c get_names_loop_eq [OF assms] term_set_size_def
        del: get_names_loop.simps)
qed

theorem term_set_get_names_appends_witness:
  "length (enabled \<lparr>enabled = [True, False, True],
       funs = [\<lparr>name = ''gauss''\<rparr>, \<lparr>name = ''repulsion''\<rparr>, \<lparr>name = ''hydrophobic''\<rparr>]\<rparr>)
     = length (funs \<lparr>enabled = [True, False, True],
       funs = [\<lparr>name = ''gauss''\<rparr>, \<lparr>name = ''repulsion''\<rparr>, \<lparr>name = ''hydrophobic''\<rparr>]\<rparr>)
   \<and> term_set_get_names \<lparr>enabled = [True, False, True],
       funs = [\<lparr>name = ''gauss''\<rparr>, \<lparr>name = ''repulsion''\<rparr>, \<lparr>name = ''hydrophobic''\<rparr>]\<rparr> True [''ad4'']
       = \<lparr>failure_signal = False, returned = Inr [''ad4'', ''gauss'', ''hydrophobic'']\<rparr>
   \<and> term_set_get_names \<lparr>enabled = [True, False, True],
       funs = [\<lparr>name = ''gauss''\<rparr>, \<lparr>name = ''repulsion''\<rparr>, \<lparr>name = ''hydrophobic''\<rparr>]\<rparr> False [''ad4'']
       = \<lparr>failure_signal = False, returned = Inr [''ad4'', ''gauss'', ''repulsion'', ''hydrophobic'']\<rparr>"
  using term_set_get_names_appends [of "\<lparr>enabled = [True, False, True],
       funs = [\<lparr>name = ''gauss''\<rparr>, \<lparr>name = ''repulsion''\<rparr>, \<lparr>name = ''hydrophobic''\<rparr>]\<rparr>" True "[''ad4'']"]
  by (simp add: term_set_size_def upt_rec)


text \<open>
  The claim C5 says that \<open>max_cutoff\<close> is the maximum cutoff of the terms of any
  registry. The loop starts from 0, so a registry whose only term has the cutoff -1 gives
  0, which is not the cutoff of any of its terms.
\<close>

theorem term_set_max_cutoff_negative_counterexample:
  "term_set_max_cutoff distance_additive.cutoff
     \<lparr>enabled = [True], funs = [\<lparr>name = ''penalty'', distance_additive.cutoff = - 1\<rparr>]\<rparr>
   \<noteq> Max (set (map distance_additive.cutoff
              (funs \<lparr>enabled = [True], funs = [\<lparr>name = ''penalty'', distance_additive.cutoff = - 1\<rparr>]\<rparr>)))"
  by (simp add: term_set_max_cutoff_def max_cutoff_loop_eq del: max_cutoff_loop.simps)

text \<open>
  C5, amended. \<open>max_cutoff\<close> is the maximum of 0 and the cutoffs of all terms, whatever
  the enable flags; it is 0 for the empty registry, and it is the maximum cutoff of the
  terms as soon as one term has a cutoff that is not negative (4.5 for the cutoffs 2.0,
  4.5 and 3.1).
\<close>

theorem term_set_max_cutoff_floor:
  "term_set_max_cutoff cutoff_of ts = Max (insert 0 (set (map cutoff_of (funs ts))))
   \<and> term_set_max_cutoff cutoff_of (ts\<lparr>enabled := flags\<rparr>) = term_set_max_cutoff cutoff_of ts
   \<and> term_set_max_cutoff cutoff_of term_set_empty = 0
   \<and> ((\<exists>k<term_set_size ts. 0 \<le> cutoff_of (funs ts ! k)) \<longrightarrow>
        term_set_max_cutoff cutoff_of ts = Max (set (map cutoff_of (funs ts))))"
proof -
  have m: "term_set_max_cutoff c r = Max (insert 0 (set (map c (funs r))))" for c :: "'a \<Rightarrow> fl" and r
    by (simp add: term_set_max_cutoff_def max_cutoff_loop_eq del: max_cutoff_loop.simps)
  have "Max (insert 0 (set (map cutoff_of (funs ts)))) = Max (set (map cutoff_of (funs ts)))"
    if "k < length (funs ts)" and "0 \<le> cutoff_of (funs ts ! k)" for k
  proof -
    let ?S = "set (map cutoff_of (funs ts))"
    have "cutoff_of (funs ts ! k) \<in> ?S"
      using that(1) by simp
    then have "?S \<noteq> {}" and "cutoff_of (funs ts ! k) \<le> Max ?S"
      by auto
    then show ?thesis
      using that(2) by (simp add: max_def)
  qed
  then show ?thesis
    by (auto simp: m term_set_size_def term_set_empty_def)
qed

theorem term_set_max_cutoff_floor_witness:
  "2 < term_set_size \<lparr>enabled = [True, False, True],
         funs = [\<lparr>name = ''gauss'', distance_additive.cutoff = 2\<rparr>, \<lparr>name = ''repulsion'', distance_additive.cutoff = 9/2\<rparr>,
                 \<lparr>name = ''hydrophobic'', distance_additive.cutoff = 31/10\<rparr>]\<rparr>
   \<and> 0 \<le> distance_additive.cutoff
        (funs \<lparr>enabled = [True, False, True],
         funs = [\<lparr>name = ''gauss'', distance_additive.cutoff = 2\<rparr>, \<lparr>name = ''repulsion'', distance_additive.cutoff = 9/2\<rparr>,
                 \<lparr>name = ''hydrophobic'', distance_additive.cutoff = 31/10\<rparr>]\<rparr> ! 2)
   \<and> term_set_max_cutoff distance_additive.cutoff
        \<lparr>enabled = [True, False, True],
         funs = [\<lparr>name = ''gauss'', distance_additive.cutoff = 2\<rparr>, \<lparr>name = ''repulsion'', distance_additive.cutoff = 9/2\<rparr>,
                 \<lparr>name = ''hydrophobic'', distance_additive.cutoff = 31/10\<rparr>]\<rparr> = 9/2"
  using term_set_max_cutoff_floor [of distance_additive.cutoff
        "\<lparr>enabled = [True, False, True],
         funs = [\<lparr>name = ''gauss'', distance_additive.cutoff = 2\<rparr>, \<lparr>name = ''repulsion'', distance_additive.cutoff = 9/2\<rparr>,
                 \<lparr>name = ''hydrophobic'', distance_additive.cutoff = 31/10\<rparr>]\<rparr>"]
  by (simp add: term_set_size_def)

section \<open>Weighted factors\<close>

text \<open>
  C4. \<open>num_weights()\<close> is the larger of the sizes of the two groups. With at least that
  many weights, \<open>eval\<close> returns the sum of \<open>e[k]*weights[k]\<close> over the positions of e,
  plus the sum of \<open>i[k]*weights[k]\<close> over the positions of i when \<open>include_internal\<close> is
  set; with fewer weights it fails with a precondition violation.
\<close>

theorem factors_eval_weighted_sum:
  "factors_num_weights f = max (length (factors_e f)) (length (factors_i f))
   \<and> (factors_num_weights f \<le> length weights \<longrightarrow>
        factors_eval f weights include_internal =
          Inr ((\<Sum>k<length (factors_e f). factors_e f ! k * weights ! k) +
               (if include_internal
                then (\<Sum>k<length (factors_i f). factors_i f ! k * weights ! k) else 0)))
   \<and> (length weights < factors_num_weights f \<longrightarrow>
        factors_eval f weights include_internal = Inl Precondition_violation)"
  by (simp add: factors_eval_def factors_num_weights_def weighted_sum_loop_eq Let_def
      atLeast0LessThan max_def del: weighted_sum_loop.simps)

theorem factors_eval_weighted_sum_witness:
  "factors_num_weights \<lparr>factors_e = [1, 2], factors_i = [10, 20]\<rparr> \<le> length [1, 1/2 :: real]
   \<and> factors_eval \<lparr>factors_e = [1, 2], factors_i = [10, 20]\<rparr> [1, 1/2] False = Inr 2
   \<and> factors_eval \<lparr>factors_e = [1, 2], factors_i = [10, 20]\<rparr> [1, 1/2] True = Inr 22
   \<and> length [1 :: real] < factors_num_weights \<lparr>factors_e = [1, 2], factors_i = [10, 20]\<rparr>
   \<and> factors_eval \<lparr>factors_e = [1, 2], factors_i = [10, 20]\<rparr> [1] True
       = Inl Precondition_violation"
  using factors_eval_weighted_sum [of "\<lparr>factors_e = [1, 2], factors_i = [10, 20]\<rparr>" "[1, 1/2]" False]
    factors_eval_weighted_sum [of "\<lparr>factors_e = [1, 2], factors_i = [10, 20]\<rparr>" "[1, 1/2]" True]
    factors_eval_weighted_sum [of "\<lparr>factors_e = [1, 2], factors_i = [10, 20]\<rparr>" "[1]" True]
  by (simp add: lessThan_Suc numeral_2_eq_2)

section \<open>The aggregate\<close>

text \<open>
  C9. \<open>add\<close> on the aggregate appends the term, with the flag derived from the weight, to
  the registry of the static kind of the pointer, and leaves the other four registries
  as they were.
\<close>

theorem terms_add_dispatch:
  "distance_additive_terms (terms_add e (Distance_additive_ptr da) t)
       = term_set_add e da (distance_additive_terms t)
   \<and> enabled (distance_additive_terms (terms_add e (Distance_additive_ptr da) t))
       = enabled (distance_additive_terms t) @ [0 < e]
   \<and> funs (distance_additive_terms (terms_add e (Distance_additive_ptr da) t))
       = funs (distance_additive_terms t) @ [da]
   \<and> usable_terms (terms_add e (Distance_additive_ptr da) t) = usable_terms t
   \<and> additive_terms (terms_add e (Distance_additive_ptr da) t) = additive_terms t
   \<and> intermolecular_terms (terms_add e (Distance_additive_ptr da) t) = intermolecular_terms t
   \<and> conf_independent_terms (terms_add e (Distance_additive_ptr da) t) = conf_independent_terms t
   \<and> usable_terms (terms_add e (Usable_ptr us) t)
       = term_set_add e us (usable_terms t)
   \<and> enabled (usable_terms (terms_add e (Usable_ptr us) t))
       = enabled (usable_terms t) @ [0 < e]
   \<and> funs (usable_terms (terms_add e (Usable_ptr us) t))
       = funs (usable_terms t) @ [us]
   \<and> distance_additive_terms (terms_add e (Usable_ptr us) t) = distance_additive_terms t
   \<and> additive_terms (terms_add e (Usable_ptr us) t) = additive_terms t
   \<and> intermolecular_terms (terms_add e (Usable_ptr us) t) = intermolecular_terms t
   \<and> conf_independent_terms (terms_add e (Usable_ptr us) t) = conf_independent_terms t
   \<and> additive_terms (terms_add e (Additive_ptr ad) t)
       = term_set_add e ad (additive_terms t)
   \<and> enabled (additive_terms (terms_add e (Additive_ptr ad) t))
       = enabled (additive_terms t) @ [0 < e]
   \<and> funs (additive_terms (terms_add e (Additive_ptr ad) t))
       = funs (additive_terms t) @ [ad]
   \<and> distance_additive_terms (terms_add e (Additive_ptr ad) t) = distance_additive_terms t
   \<and> usable_terms (terms_add e (Additive_ptr ad) t) = usable_terms t
   \<and> intermolecular_terms (terms_add e (Additive_ptr ad) t) = intermolecular_terms t
   \<and> conf_independent_terms (terms_add e (Additive_ptr ad) t) = conf_independent_terms t
   \<and> intermolecular_terms (terms_add e (Intermolecular_ptr im) t)
       = term_set_add e im (intermolecular_terms t)
   \<and> enabled (intermolecular_terms (terms_add e (Intermolecular_ptr im) t))
       = enabled (intermolecular_terms t) @ [0 < e]
   \<and> funs (intermolecular_terms (terms_add e (Intermolecular_ptr im) t))
       = funs (intermolecular_terms t) @ [im]
   \<and> distance_additive_terms (terms_add e (Intermolecular_ptr im) t) = distance_additive_terms t
   \<and> usable_terms (terms_add e (Intermolecular_ptr im) t) = usable_terms t
   \<and> additive_terms (terms_add e (Intermolecular_ptr im) t) = additive_terms t
   \<and> conf_independent_terms (terms_add e (Intermolecular_ptr im) t) = conf_independent_terms t
   \<and> conf_independent_terms (terms_add e (Conf_independent_ptr ci) t)
       = term_set_add e ci (conf_independent_terms t)
   \<and> enabled (conf_independent_terms (terms_add e (Conf_independent_ptr ci) t))
       = enabled (conf_independent_terms t) @ [0 < e]
   \<and> funs (conf_independent_terms (terms_add e (Conf_independent_ptr ci) t))
       = funs (conf_independent_terms t) @ [ci]
   \<and> distance_additive_terms (terms_add e (Conf_independent_ptr ci) t) = distance_additive_terms t
   \<and> usable_terms (terms_add e (Conf_independent_ptr ci) t) = usable_terms t
   \<and> additive_terms (terms_add e (Conf_independent_ptr ci) t) = additive_terms t
   \<and> intermolecular_terms (terms_add e (Conf_independent_ptr ci) t) = intermolecular_terms t"
  by (simp add: term_set_add_def)

end
